theory Spec2Isabelle
  imports Complex_Main
begin

section \<open>JavaScript numbers\<close>

text \<open>
  The component in \<^verbatim>\<open>src/App.tsx\<close> computes with JavaScript numbers. They are modelled
  as exact rationals extended with the three special values that decide the behaviour of
  the code at its edges: \<open>Infinity\<close>, \<open>-Infinity\<close> and \<open>NaN\<close>. A finite result of an
  arithmetic operation is kept exact, where the code rounds it to the nearest double; the
  properties below rest on which results are zero, finite, infinite or \<open>NaN\<close> and on
  values that the rounding leaves alone. \<open>-0\<close> is identified with \<open>0\<close>. The divisors of
  the metrics below are a difference or a count of whole seconds, so a zero divisor is
  always \<open>+0\<close> and a quotient by zero has the sign of the numerator.
\<close>

datatype jsnum = Fin rat | PosInf | NegInf | NaN

definition num :: "nat \<Rightarrow> jsnum" where
  "num n = Fin (of_nat n)"

fun isNaN :: "jsnum \<Rightarrow> bool" where
  "isNaN NaN = True"
| "isNaN _ = False"

fun isFinite :: "jsnum \<Rightarrow> bool" where
  "isFinite (Fin _) = True"
| "isFinite _ = False"

fun js_neg :: "jsnum \<Rightarrow> jsnum" where
  "js_neg (Fin a) = Fin (- a)"
| "js_neg PosInf = NegInf"
| "js_neg NegInf = PosInf"
| "js_neg NaN = NaN"

fun js_add :: "jsnum \<Rightarrow> jsnum \<Rightarrow> jsnum" where
  "js_add NaN _ = NaN"
| "js_add _ NaN = NaN"
| "js_add (Fin a) (Fin b) = Fin (a + b)"
| "js_add (Fin _) PosInf = PosInf"
| "js_add (Fin _) NegInf = NegInf"
| "js_add PosInf NegInf = NaN"
| "js_add PosInf _ = PosInf"
| "js_add NegInf PosInf = NaN"
| "js_add NegInf _ = NegInf"

definition js_sub :: "jsnum \<Rightarrow> jsnum \<Rightarrow> jsnum" where
  "js_sub x y = js_add x (js_neg y)"

text \<open>The sign of an infinite product; \<open>Infinity * 0\<close> is \<open>NaN\<close>.\<close>

definition inf_times :: "bool \<Rightarrow> rat \<Rightarrow> jsnum" where
  "inf_times positive b =
     (if b = 0 then NaN else if (0 < b) = positive then PosInf else NegInf)"

fun js_mul :: "jsnum \<Rightarrow> jsnum \<Rightarrow> jsnum" where
  "js_mul NaN _ = NaN"
| "js_mul _ NaN = NaN"
| "js_mul (Fin a) (Fin b) = Fin (a * b)"
| "js_mul (Fin a) PosInf = inf_times True a"
| "js_mul (Fin a) NegInf = inf_times False a"
| "js_mul PosInf (Fin b) = inf_times True b"
| "js_mul NegInf (Fin b) = inf_times False b"
| "js_mul PosInf PosInf = PosInf"
| "js_mul PosInf NegInf = NegInf"
| "js_mul NegInf PosInf = NegInf"
| "js_mul NegInf NegInf = PosInf"

text \<open>Division; a zero divisor is \<open>+0\<close> (see above), so \<open>a / 0\<close> has the sign of \<open>a\<close>.\<close>

fun js_div :: "jsnum \<Rightarrow> jsnum \<Rightarrow> jsnum" where
  "js_div NaN _ = NaN"
| "js_div _ NaN = NaN"
| "js_div (Fin a) (Fin b) =
     (if b = 0 then (if a = 0 then NaN else if 0 < a then PosInf else NegInf)
      else Fin (a / b))"
| "js_div (Fin _) PosInf = Fin 0"
| "js_div (Fin _) NegInf = Fin 0"
| "js_div PosInf (Fin b) = (if 0 \<le> b then PosInf else NegInf)"
| "js_div NegInf (Fin b) = (if 0 \<le> b then NegInf else PosInf)"
| "js_div PosInf _ = NaN"
| "js_div NegInf _ = NaN"

text \<open>\<^verbatim>\<open>x > y\<close>: false as soon as one side is \<open>NaN\<close>.\<close>

fun js_gt :: "jsnum \<Rightarrow> jsnum \<Rightarrow> bool" where
  "js_gt NaN _ = False"
| "js_gt _ NaN = False"
| "js_gt (Fin a) (Fin b) = (b < a)"
| "js_gt PosInf PosInf = False"
| "js_gt PosInf _ = True"
| "js_gt NegInf _ = False"
| "js_gt (Fin _) PosInf = False"
| "js_gt (Fin _) NegInf = True"

text \<open>\<^verbatim>\<open>x >= y\<close>: false as soon as one side is \<open>NaN\<close>.\<close>

fun js_ge :: "jsnum \<Rightarrow> jsnum \<Rightarrow> bool" where
  "js_ge NaN _ = False"
| "js_ge _ NaN = False"
| "js_ge (Fin a) (Fin b) = (b \<le> a)"
| "js_ge PosInf _ = True"
| "js_ge NegInf NegInf = True"
| "js_ge NegInf _ = False"
| "js_ge (Fin _) PosInf = False"
| "js_ge (Fin _) NegInf = True"

text \<open>\<^verbatim>\<open>Math.max(x, y)\<close>: \<open>NaN\<close> if either argument is.\<close>

definition Math_max :: "jsnum \<Rightarrow> jsnum \<Rightarrow> jsnum" where
  "Math_max x y = (if isNaN x \<or> isNaN y then NaN else if js_gt y x then y else x)"

text \<open>\<^verbatim>\<open>Math.round(x)\<close>: the nearest integer, halves towards \<open>+Infinity\<close>.\<close>

fun Math_round :: "jsnum \<Rightarrow> jsnum" where
  "Math_round (Fin a) = Fin (of_int \<lfloor>a + 1 / 2\<rfloor>)"
| "Math_round x = x"

text \<open>\<^verbatim>\<open>x || 0\<close> on a number: \<open>NaN\<close> and \<open>0\<close> are falsy.\<close>

definition or_zero :: "jsnum \<Rightarrow> jsnum" where
  "or_zero x = (if isNaN x \<or> x = Fin 0 then Fin 0 else x)"

section \<open>\<^verbatim>\<open>parseFloat\<close>\<close>

text \<open>
  \<^verbatim>\<open>parseFloat\<close> skips leading white space and reads the longest prefix that is a decimal
  literal: an optional sign, then \<open>Infinity\<close>, or digits with an optional fraction and an
  optional exponent (at least one digit before or after the point). No such prefix gives
  \<open>NaN\<close>; what follows the prefix is ignored. A literal too large for a double reads as
  \<open>Infinity\<close>; the value of any other literal is kept exact. Strings are ASCII here.
\<close>

definition isWhiteSpace :: "char \<Rightarrow> bool" where
  "isWhiteSpace c = (of_char c \<in> {9, 10, 11, 12, 13, 32 :: int})"

definition isDigit :: "char \<Rightarrow> bool" where
  "isDigit c = (48 \<le> (of_char c :: int) \<and> (of_char c :: int) \<le> 57)"

text \<open>The value of a string of digits, most significant first.\<close>

definition digitsValue :: "string \<Rightarrow> int" where
  "digitsValue ds = foldl (\<lambda>a c. 10 * a + ((of_char c :: int) - 48)) 0 ds"

definition pow10 :: "int \<Rightarrow> rat" where
  "pow10 e = (if 0 \<le> e then 10 ^ nat e else 1 / 10 ^ nat (- e))"

text \<open>
  The least value that rounds to \<open>Infinity\<close>: \<open>2 ^ 1024 - 2 ^ 970\<close>, half-way between the
  largest double and \<open>2 ^ 1024\<close>.
\<close>

definition double_overflow :: rat where
  "double_overflow = 179769313486231580793728971405303415079934132710037826936173778980444968292764750946649017977587207096330286416692887910946555547851940402630657488671505820681908902000708383676273854845817711531764475730270069855571366959622842914819860834936475292719074168444365510704342711559699508093042880177904174497792"

definition overflowToInfinity :: "rat \<Rightarrow> jsnum" where
  "overflowToInfinity q = (if double_overflow \<le> q then PosInf else Fin q)"

text \<open>The exponent part counts only when a digit follows the indicator and its sign.\<close>

fun exponentPart :: "string \<Rightarrow> int" where
  "exponentPart [] = 0"
| "exponentPart (e # r) =
     (if e = CHR ''e'' \<or> e = CHR ''E'' then
        (case r of
           [] \<Rightarrow> 0
         | s # r' \<Rightarrow>
             if s = CHR ''-'' then
               (if takeWhile isDigit r' = [] then 0 else - digitsValue (takeWhile isDigit r'))
             else if s = CHR ''+'' then
               (if takeWhile isDigit r' = [] then 0 else digitsValue (takeWhile isDigit r'))
             else digitsValue (takeWhile isDigit r))
      else 0)"

definition unsignedLiteral :: "string \<Rightarrow> jsnum" where
  "unsignedLiteral u =
     (if take 8 u = ''Infinity'' then PosInf
      else
        let ds1 = takeWhile isDigit u;
            r1 = dropWhile isDigit u;
            ds2 = (case r1 of [] \<Rightarrow> [] | c # r \<Rightarrow> if c = CHR ''.'' then takeWhile isDigit r else []);
            r2 = (case r1 of [] \<Rightarrow> [] | c # r \<Rightarrow> if c = CHR ''.'' then dropWhile isDigit r else r1)
        in if ds1 = [] \<and> ds2 = [] then NaN
           else overflowToInfinity
                  (of_int (digitsValue (ds1 @ ds2)) / 10 ^ length ds2 * pow10 (exponentPart r2)))"

definition parseFloat :: "string \<Rightarrow> jsnum" where
  "parseFloat str =
     (case dropWhile isWhiteSpace str of
        [] \<Rightarrow> NaN
      | c # r \<Rightarrow>
          if c = CHR ''-'' then js_neg (unsignedLiteral r)
          else if c = CHR ''+'' then unsignedLiteral r
          else unsignedLiteral (c # r))"

section \<open>The state of the component\<close>

text \<open>
  \<^verbatim>\<open>App\<close> keeps the session in React state variables; the record below has one field per
  variable, under the variable's name. \<open>roastTimer\<close> starts at 0 and only ever grows by 1,
  so it is a natural number, and so are the times copied from it. The archive
  (\<open>roastHistory\<close> and local storage) is left out: no operation on the session reads it.
\<close>

datatype AppState = Setup | Roasting | Completion | Summary | History

datatype RoastPhase = Drying | Maillard | Development

record TemperatureReading =
  time :: nat
  temperature :: jsnum

record session =
  appState :: AppState
  roastTimer :: nat
  isTimerRunning :: bool
  firstCrackTime :: "nat option"
  temperatureReadings :: "TemperatureReading list"
  currentTemp :: string
  greenWeight :: string
  ambientTemp :: string
  chargeTemp :: string
  roastType :: string
  beanOrigin :: string
  roastedWeight :: string
  roastNotes :: string

text \<open>The values of the \<^verbatim>\<open>useState\<close> calls.\<close>

definition initial :: session where
  "initial = \<lparr> appState = Setup, roastTimer = 0, isTimerRunning = False,
     firstCrackTime = None, temperatureReadings = [], currentTemp = [],
     greenWeight = [], ambientTemp = [], chargeTemp = [], roastType = ''Medium'',
     beanOrigin = [], roastedWeight = [], roastNotes = [] \<rparr>"

section \<open>Derived metrics\<close>

text \<open>\<^verbatim>\<open>!firstCrackTime\<close> on a \<^verbatim>\<open>number | null\<close>: true for \<open>null\<close> and for \<open>0\<close>.\<close>

fun falsy :: "nat option \<Rightarrow> bool" where
  "falsy None = True"
| "falsy (Some n) = (n = 0)"

record predictions =
  firstCrack :: jsnum
  totalTime :: jsnum
  development :: nat

definition getPredictions :: "session \<Rightarrow> predictions" where
  "getPredictions s =
     (let weight = or_zero (parseFloat (greenWeight s));
          charge = or_zero (parseFloat (chargeTemp s));
          baseTime = (if js_gt weight (Fin 500) then Fin 720 else Fin 660);
          tempAdjustment = js_mul (js_sub charge (Fin 200)) (Fin (1 / 2));
          estimatedFirstCrack = js_add (js_mul baseTime (Fin (8 / 10))) tempAdjustment;
          estimatedTotal = js_add baseTime tempAdjustment;
          suggestedDevelopment =
            (if roastType s = ''Light'' then 15 else if roastType s = ''Medium'' then 18 else 22)
      in \<lparr> firstCrack = Math_max estimatedFirstCrack (Fin 480),
           totalTime = Math_max estimatedTotal (Fin 600),
           development = suggestedDevelopment \<rparr>)"

definition getCurrentPhase :: "session \<Rightarrow> RoastPhase" where
  "getCurrentPhase s =
     (case firstCrackTime s of
        None \<Rightarrow> Drying
      | Some fc \<Rightarrow>
          if falsy (Some fc) then Drying
          else if roastTimer s < fc then Maillard
          else Development)"

definition getDevelopmentPercent :: "session \<Rightarrow> jsnum" where
  "getDevelopmentPercent s =
     (case firstCrackTime s of
        None \<Rightarrow> Fin 0
      | Some fc \<Rightarrow>
          if falsy (Some fc) then Fin 0
          else
            let developmentTime = js_sub (num (roastTimer s)) (num fc)
            in Math_round (js_mul (js_div developmentTime (num (roastTimer s))) (Fin 100)))"

text \<open>\<^verbatim>\<open>xs.slice(-2)\<close>: the last two elements, or all of a shorter list.\<close>

definition slice_last2 :: "'a list \<Rightarrow> 'a list" where
  "slice_last2 xs = drop (length xs - 2) xs"

text \<open>
  The guard on the length makes \<open>lastTwo\<close> a list of exactly two readings, so both
  index reads are in range.
\<close>

definition getRateOfRise :: "session \<Rightarrow> jsnum" where
  "getRateOfRise s =
     (if length (temperatureReadings s) < 2 then Fin 0
      else
        let lastTwo = slice_last2 (temperatureReadings s);
            timeDiff = js_sub (num (time (lastTwo ! 1))) (num (time (lastTwo ! 0)));
            tempDiff = js_sub (temperature (lastTwo ! 1)) (temperature (lastTwo ! 0))
        in Math_round (js_mul (js_div tempDiff timeDiff) (Fin 60)))"

section \<open>Event handlers\<close>

definition startRoast :: "session \<Rightarrow> session" where
  "startRoast s =
     s\<lparr> isTimerRunning := True,
        appState := Roasting,
        temperatureReadings :=
          (if chargeTemp s \<noteq> [] then [\<lparr> time = 0, temperature = parseFloat (chargeTemp s) \<rparr>]
           else temperatureReadings s) \<rparr>"

definition stopRoast :: "session \<Rightarrow> session" where
  "stopRoast s = s\<lparr> isTimerRunning := False \<rparr>"

definition resetRoast :: "session \<Rightarrow> session" where
  "resetRoast s =
     s\<lparr> isTimerRunning := False, roastTimer := 0, firstCrackTime := None,
        temperatureReadings := [], currentTemp := [], appState := Setup \<rparr>"

definition markFirstCrack :: "session \<Rightarrow> session" where
  "markFirstCrack s = s\<lparr> firstCrackTime := Some (roastTimer s) \<rparr>"

definition addTemperatureReading :: "session \<Rightarrow> session" where
  "addTemperatureReading s =
     (if currentTemp s \<noteq> [] \<and> \<not> isNaN (parseFloat (currentTemp s)) then
        s\<lparr> temperatureReadings :=
             temperatureReadings s
               @ [\<lparr> time = roastTimer s, temperature = parseFloat (currentTemp s) \<rparr>],
           currentTemp := [] \<rparr>
      else s)"

definition finishRoast :: "session \<Rightarrow> session" where
  "finishRoast s = s\<lparr> isTimerRunning := False, appState := Completion \<rparr>"

definition proceedToSummary :: "session \<Rightarrow> session" where
  "proceedToSummary s = s\<lparr> appState := Summary \<rparr>"

text \<open>
  \<^verbatim>\<open>saveRoast\<close> appends a record to the archive and then calls \<^verbatim>\<open>resetRoast\<close>; on the
  session it is the reset.
\<close>

definition saveRoast :: "session \<Rightarrow> session" where
  "saveRoast s = resetRoast s"

text \<open>
  The timer effect: while \<open>isTimerRunning\<close> holds an interval adds 1 to \<open>roastTimer\<close> every
  second; the interval is cleared when the flag drops.
\<close>

definition tick :: "session \<Rightarrow> session" where
  "tick s = (if isTimerRunning s then s\<lparr> roastTimer := roastTimer s + 1 \<rparr> else s)"

section \<open>The operations as the interface offers them\<close>

text \<open>
  A handler runs when its button is clicked. A button exists only while its panel is
  rendered (\<^verbatim>\<open>appState === '...' && (...)\<close>) and does nothing while its \<^verbatim>\<open>disabled\<close>
  attribute holds. Each operation below is the handler under exactly these two conditions
  of the JSX.
\<close>

definition click_startRoast :: "session \<Rightarrow> session" where
  "click_startRoast s =
     (if appState s = Setup \<and> \<not> (greenWeight s = [] \<or> chargeTemp s = []) then startRoast s
      else s)"

text \<open>The pause button: \<^verbatim>\<open>isTimerRunning ? stopRoast : () => setIsTimerRunning(true)\<close>.\<close>

definition click_toggleTimer :: "session \<Rightarrow> session" where
  "click_toggleTimer s =
     (if appState s = Roasting then
        (if isTimerRunning s then stopRoast s else s\<lparr> isTimerRunning := True \<rparr>)
      else s)"

definition click_markFirstCrack :: "session \<Rightarrow> session" where
  "click_markFirstCrack s =
     (if appState s = Roasting \<and> \<not> (\<not> isTimerRunning s \<or> firstCrackTime s \<noteq> None)
      then markFirstCrack s else s)"

definition click_resetRoast :: "session \<Rightarrow> session" where
  "click_resetRoast s = (if appState s = Roasting then resetRoast s else s)"

definition click_addTemperatureReading :: "session \<Rightarrow> session" where
  "click_addTemperatureReading s =
     (if appState s = Roasting \<and> \<not> (currentTemp s = [] \<or> isNaN (parseFloat (currentTemp s)))
      then addTemperatureReading s else s)"

definition click_finishRoast :: "session \<Rightarrow> session" where
  "click_finishRoast s = (if appState s = Roasting then finishRoast s else s)"

definition click_proceedToSummary :: "session \<Rightarrow> session" where
  "click_proceedToSummary s =
     (if appState s = Completion \<and> roastedWeight s \<noteq> [] then proceedToSummary s else s)"

definition click_saveRoast :: "session \<Rightarrow> session" where
  "click_saveRoast s = (if appState s = Summary then saveRoast s else s)"

text \<open>
  The navigation bar has three keys and is always rendered; the \<open>roasting\<close> key is
  disabled while the green weight or the charge temperature is empty.
\<close>

datatype navKey = NavSetup | NavRoasting | NavHistory

fun navigate :: "navKey \<Rightarrow> session \<Rightarrow> session" where
  "navigate NavSetup s = s\<lparr> appState := Setup \<rparr>"
| "navigate NavRoasting s =
     (if greenWeight s = [] \<or> chargeTemp s = [] then s else s\<lparr> appState := Roasting \<rparr>)"
| "navigate NavHistory s = s\<lparr> appState := History \<rparr>"

text \<open>Everything that can happen to the session: a tick, an edit of a field, a click.\<close>

datatype event =
    Tick
  | Navigate navKey
  | SetGreenWeight string
  | SetAmbientTemp string
  | SetChargeTemp string
  | SetRoastType string
  | SetBeanOrigin string
  | SetCurrentTemp string
  | SetRoastedWeight string
  | SetRoastNotes string
  | ClickStart
  | ClickToggleTimer
  | ClickFirstCrack
  | ClickReset
  | ClickLogTemp
  | ClickFinish
  | ClickSummary
  | ClickSave

fun step :: "event \<Rightarrow> session \<Rightarrow> session" where
  "step Tick s = tick s"
| "step (Navigate k) s = navigate k s"
| "step (SetGreenWeight v) s = (if appState s = Setup then s\<lparr> greenWeight := v \<rparr> else s)"
| "step (SetAmbientTemp v) s = (if appState s = Setup then s\<lparr> ambientTemp := v \<rparr> else s)"
| "step (SetChargeTemp v) s = (if appState s = Setup then s\<lparr> chargeTemp := v \<rparr> else s)"
| "step (SetRoastType v) s = (if appState s = Setup then s\<lparr> roastType := v \<rparr> else s)"
| "step (SetBeanOrigin v) s = (if appState s = Setup then s\<lparr> beanOrigin := v \<rparr> else s)"
| "step (SetCurrentTemp v) s = (if appState s = Roasting then s\<lparr> currentTemp := v \<rparr> else s)"
| "step (SetRoastedWeight v) s =
     (if appState s = Completion then s\<lparr> roastedWeight := v \<rparr> else s)"
| "step (SetRoastNotes v) s = (if appState s = Summary then s\<lparr> roastNotes := v \<rparr> else s)"
| "step ClickStart s = click_startRoast s"
| "step ClickToggleTimer s = click_toggleTimer s"
| "step ClickFirstCrack s = click_markFirstCrack s"
| "step ClickReset s = click_resetRoast s"
| "step ClickLogTemp s = click_addTemperatureReading s"
| "step ClickFinish s = click_finishRoast s"
| "step ClickSummary s = click_proceedToSummary s"
| "step ClickSave s = click_saveRoast s"

text \<open>The session after a sequence of events, oldest first.\<close>

fun run :: "event list \<Rightarrow> session \<Rightarrow> session" where
  "run [] s = s"
| "run (e # es) s = run es (step e s)"

text \<open>The session reached from the initial state by a sequence of events.\<close>

definition session_after :: "event list \<Rightarrow> session" where
  "session_after es = run es initial"

text \<open>
  The operator enters a green weight of 400 g and a charge temperature of 200 degrees and
  begins the roast.
\<close>

definition begin_roast :: "event list" where
  "begin_roast = [SetGreenWeight ''400'', SetChargeTemp ''200'', ClickStart]"

section \<open>The number fields\<close>

text \<open>
  The green weight, the three temperatures and the roasted weight are entered in fields of
  type \<open>number\<close>. Such a field hands its handler the text typed into it when the text is a
  valid floating-point number with a finite value, and the empty string otherwise. A
  valid floating-point number is an optional minus sign, then digits, or digits followed by
  a point and digits, or a point and digits, then optionally an exponent: \<open>e\<close> or \<open>E\<close>, an
  optional sign and digits.
\<close>

definition validExponent :: "string \<Rightarrow> bool" where
  "validExponent r =
     (case r of
        [] \<Rightarrow> True
      | e # r1 \<Rightarrow>
          (e = CHR ''e'' \<or> e = CHR ''E'') \<and>
          (case r1 of
             [] \<Rightarrow> False
           | c # r2 \<Rightarrow>
               if c = CHR ''-'' \<or> c = CHR ''+'' then r2 \<noteq> [] \<and> list_all isDigit r2
               else list_all isDigit r1))"

definition validFloatingPoint :: "string \<Rightarrow> bool" where
  "validFloatingPoint str =
     (let u = (case str of [] \<Rightarrow> [] | c # r \<Rightarrow> if c = CHR ''-'' then r else str);
          ds1 = takeWhile isDigit u;
          r1 = dropWhile isDigit u
      in case r1 of
           [] \<Rightarrow> ds1 \<noteq> []
         | c # r \<Rightarrow>
             if c = CHR ''.'' then takeWhile isDigit r \<noteq> [] \<and> validExponent (dropWhile isDigit r)
             else ds1 \<noteq> [] \<and> validExponent r1)"

text \<open>The value the field holds for a text.\<close>

definition numberField :: "string \<Rightarrow> string" where
  "numberField str = (if validFloatingPoint str \<and> isFinite (parseFloat str) then str else [])"

text \<open>
  An edit of a number field is receivable when its value is one the field can hold; every
  other event is.
\<close>

fun receivable :: "event \<Rightarrow> bool" where
  "receivable (SetGreenWeight v) = (numberField v = v)"
| "receivable (SetAmbientTemp v) = (numberField v = v)"
| "receivable (SetChargeTemp v) = (numberField v = v)"
| "receivable (SetCurrentTemp v) = (numberField v = v)"
| "receivable (SetRoastedWeight v) = (numberField v = v)"
| "receivable _ = True"

section \<open>Invariants of the session\<close>

fun not_after :: "nat option \<Rightarrow> nat \<Rightarrow> bool" where
  "not_after None t = True"
| "not_after (Some fc) t = (fc \<le> t)"

text \<open>
  The times of the log never decrease along the log, no reading is later than the timer,
  and a first crack, once marked, is not later than the timer.
\<close>

definition session_inv :: "session \<Rightarrow> bool" where
  "session_inv s =
     (sorted (map time (temperatureReadings s)) \<and>
      list_all (\<lambda>r. time r \<le> roastTimer s) (temperatureReadings s) \<and>
      not_after (firstCrackTime s) (roastTimer s))"

section \<open>The prediction formula as the specification words it\<close>

datatype profile = Light | Medium | Dark

text \<open>The values of the options of the profile selector.\<close>

fun profile_name :: "profile \<Rightarrow> string" where
  "profile_name Light = ''Light''"
| "profile_name Medium = ''Medium''"
| "profile_name Dark = ''Dark''"

text \<open>
  \<open>predict\<close> of the specification: a base time of 720 s above 500 g and 660 s otherwise,
  an adjustment of half a second per degree of charge temperature above 200, a first
  crack at 80 percent of the base time and never before 480 s, a total never below 600 s,
  and a development target by profile.
\<close>

definition predict_spec :: "jsnum \<Rightarrow> jsnum \<Rightarrow> profile \<Rightarrow> predictions" where
  "predict_spec gw ct p =
     (let baseTime = (if js_gt gw (Fin 500) then Fin 720 else Fin 660);
          tempAdjustment = js_mul (js_sub ct (Fin 200)) (Fin (1 / 2))
      in \<lparr> firstCrack = Math_max (js_add (js_mul baseTime (Fin (8 / 10))) tempAdjustment) (Fin 480),
           totalTime = Math_max (js_add baseTime tempAdjustment) (Fin 600),
           development = (case p of Light \<Rightarrow> 15 | Medium \<Rightarrow> 18 | Dark \<Rightarrow> 22) \<rparr>)"

section \<open>Phase and development percentage\<close>

lemma getCurrentPhase_unmarked: "firstCrackTime s = None \<Longrightarrow> getCurrentPhase s = Drying"
  by (simp add: getCurrentPhase_def)

lemma getCurrentPhase_marked:
  "firstCrackTime s = Some fc \<Longrightarrow> 0 < fc \<Longrightarrow>
   getCurrentPhase s = (if roastTimer s < fc then Maillard else Development)"
  by (simp add: getCurrentPhase_def)

text \<open>
  C1. The phase is meant to be \<open>development\<close> from the mark onwards, \<open>maillard\<close> before a
  mark that is set, and \<open>drying\<close> only while no mark is set. The test \<^verbatim>\<open>!firstCrackTime\<close>
  takes a mark at second 0 for no mark: the operator begins the roast, marks first crack
  within the first second, and two seconds later the session, whose mark is 0, is still
  in \<open>drying\<close>.
\<close>

theorem getCurrentPhase_mark_at_zero:
  "firstCrackTime (session_after (begin_roast @ [ClickFirstCrack, Tick, Tick])) = Some 0 \<and>
   roastTimer (session_after (begin_roast @ [ClickFirstCrack, Tick, Tick])) = 2 \<and>
   getCurrentPhase (session_after (begin_roast @ [ClickFirstCrack, Tick, Tick])) = Drying"
  by code_simp

lemma getDevelopmentPercent_unmarked:
  "firstCrackTime s = None \<Longrightarrow> getDevelopmentPercent s = Fin 0"
  by (simp add: getDevelopmentPercent_def)

lemma getDevelopmentPercent_at_zero:
  assumes "session_inv s" and "roastTimer s = 0"
  shows "getDevelopmentPercent s = Fin 0"
  using assms by (cases "firstCrackTime s") (simp_all add: getDevelopmentPercent_def session_inv_def)

text \<open>The scenario of the specification: first crack at 600 s, 720 s elapsed, 17 percent.\<close>

lemma getDevelopmentPercent_scenario:
  "getDevelopmentPercent
     (session_after (begin_roast @ replicate 600 Tick @ [ClickFirstCrack] @ replicate 120 Tick))
   = Fin 17"
  by code_simp

text \<open>
  C5. The development percentage is meant to be \<open>round(100 * (elapsed - mark) / elapsed)\<close>
  for every session with a mark, a mark at second 0 included, where it is 100. The test
  \<^verbatim>\<open>!firstCrackTime\<close> takes that mark for no mark and the code returns 0: with the mark
  at 0 and 2 seconds elapsed the code gives 0 where the formula gives 100.
\<close>

theorem getDevelopmentPercent_mark_at_zero:
  "firstCrackTime (session_after (begin_roast @ [ClickFirstCrack, Tick, Tick])) = Some 0 \<and>
   roastTimer (session_after (begin_roast @ [ClickFirstCrack, Tick, Tick])) = 2 \<and>
   getDevelopmentPercent (session_after (begin_roast @ [ClickFirstCrack, Tick, Tick])) = Fin 0 \<and>
   Math_round (js_mul (js_div (js_sub (num 2) (num 0)) (num 2)) (Fin 100)) = Fin 100"
  by code_simp

section \<open>Reset\<close>

text \<open>
  C2 (as the code has it). \<open>resetRoast\<close> works in every state: it returns the session to
  \<open>setup\<close> with the timer at 0 and stopped, no first crack, an empty log and an empty
  pending temperature. It does not touch the configuration and completion fields: green
  weight, ambient and charge temperature, profile, origin, roasted weight and notes keep
  their values.
\<close>

theorem resetRoast_clears_run_keeps_form:
  "appState (resetRoast s) = Setup \<and> roastTimer (resetRoast s) = 0 \<and>
   isTimerRunning (resetRoast s) = False \<and> firstCrackTime (resetRoast s) = None \<and>
   temperatureReadings (resetRoast s) = [] \<and> currentTemp (resetRoast s) = [] \<and>
   greenWeight (resetRoast s) = greenWeight s \<and> ambientTemp (resetRoast s) = ambientTemp s \<and>
   chargeTemp (resetRoast s) = chargeTemp s \<and> roastType (resetRoast s) = roastType s \<and>
   beanOrigin (resetRoast s) = beanOrigin s \<and> roastedWeight (resetRoast s) = roastedWeight s \<and>
   roastNotes (resetRoast s) = roastNotes s"
  by (simp add: resetRoast_def)

text \<open>
  C2 as stated fails: after the roast has begun with a green weight of 400, a reset leaves
  the green weight at 400, not at its empty default.
\<close>

theorem resetRoast_keeps_greenWeight:
  "greenWeight (click_resetRoast (session_after begin_roast)) = ''400'' \<and>
   greenWeight (resetRoast (session_after begin_roast)) = ''400'' \<and>
   greenWeight initial = []"
  by code_simp

section \<open>First crack\<close>

lemma markFirstCrack_overwrites:
  "firstCrackTime (markFirstCrack s) = Some (roastTimer s)"
  by (simp add: markFirstCrack_def)

text \<open>
  C3. Marking first crack stores the current timer value exactly when the session is in
  \<open>roasting\<close>, the timer is running and no mark is set; in every other case nothing
  changes. A second mark right after the first therefore changes nothing, and the mark
  keeps the value of the first call. (The handler itself is unconditional; the conditions
  are those of its button.)
\<close>

theorem click_markFirstCrack_once:
  "(appState s = Roasting \<and> isTimerRunning s \<and> firstCrackTime s = None \<longrightarrow>
      click_markFirstCrack s = s\<lparr> firstCrackTime := Some (roastTimer s) \<rparr>) \<and>
   (\<not> (appState s = Roasting \<and> isTimerRunning s \<and> firstCrackTime s = None) \<longrightarrow>
      click_markFirstCrack s = s) \<and>
   click_markFirstCrack (click_markFirstCrack s) = click_markFirstCrack s"
  by (auto simp: click_markFirstCrack_def markFirstCrack_def)

text \<open>
  Three seconds into the roast the mark is set to 3; a tick later a second click leaves
  it at 3.
\<close>

theorem click_markFirstCrack_once_witness:
  "appState (session_after (begin_roast @ [Tick, Tick, Tick])) = Roasting \<and>
   isTimerRunning (session_after (begin_roast @ [Tick, Tick, Tick])) \<and>
   firstCrackTime (session_after (begin_roast @ [Tick, Tick, Tick])) = None \<and>
   firstCrackTime (click_markFirstCrack (session_after (begin_roast @ [Tick, Tick, Tick])))
     = Some 3 \<and>
   firstCrackTime (click_markFirstCrack (tick (click_markFirstCrack
       (session_after (begin_roast @ [Tick, Tick, Tick])))))
     = Some 3"
proof -
  let ?s = "session_after (begin_roast @ [Tick, Tick, Tick])"
  have h: "appState ?s = Roasting \<and> isTimerRunning ?s \<and> firstCrackTime ?s = None"
    by code_simp
  have t: "roastTimer ?s = 3"
    by code_simp
  have e: "click_markFirstCrack ?s = ?s\<lparr> firstCrackTime := Some (roastTimer ?s) \<rparr>"
    using click_markFirstCrack_once [of ?s] h by blast
  have n: "firstCrackTime (tick (click_markFirstCrack ?s)) = Some 3"
    using h by (simp add: e t tick_def)
  have "click_markFirstCrack (tick (click_markFirstCrack ?s)) = tick (click_markFirstCrack ?s)"
    using click_markFirstCrack_once [of "tick (click_markFirstCrack ?s)"] n by simp
  then show ?thesis
    using h e t n by simp
qed

section \<open>Start\<close>




section \<open>Logging a temperature\<close>

lemma isDigit_chars [simp]:
  "\<not> isDigit CHR ''.''" "\<not> isDigit CHR ''-''" "\<not> isDigit CHR ''+''"
  "isDigit c \<Longrightarrow> \<not> isWhiteSpace c"
  by (auto simp: isDigit_def isWhiteSpace_def)

lemma isWhiteSpace_chars [simp]:
  "\<not> isWhiteSpace CHR ''.''" "\<not> isWhiteSpace CHR ''-''"
  by (simp_all add: isWhiteSpace_def)

lemma isNaN_js_neg [simp]: "isNaN (js_neg x) = isNaN x"
  by (cases x) simp_all

lemma isFinite_not_NaN: "isFinite x \<Longrightarrow> \<not> isNaN x"
  by (cases x) simp_all

lemma parseFloat_empty: "parseFloat [] = NaN"
  by (simp add: parseFloat_def)

lemma unsignedLiteral_digits:
  "takeWhile isDigit u \<noteq> [] \<Longrightarrow> \<not> isNaN (unsignedLiteral u)"
  by (simp add: unsignedLiteral_def Let_def overflowToInfinity_def)

lemma unsignedLiteral_fraction:
  "takeWhile isDigit r \<noteq> [] \<Longrightarrow> \<not> isNaN (unsignedLiteral (CHR ''.'' # r))"
  by (simp add: unsignedLiteral_def Let_def overflowToInfinity_def)

lemma unsignedLiteral_valid:
  assumes "validFloatingPoint str"
  shows "\<not> isNaN (unsignedLiteral
           (case str of [] \<Rightarrow> [] | c # r \<Rightarrow> if c = CHR ''-'' then r else str))"
proof -
  let ?u = "case str of [] \<Rightarrow> [] | c # r \<Rightarrow> if c = CHR ''-'' then r else str"
  show ?thesis
  proof (cases "takeWhile isDigit ?u = []")
    case False
    then show ?thesis
      by (rule unsignedLiteral_digits)
  next
    case True
    then have d: "dropWhile isDigit ?u = ?u"
      by (metis takeWhile_dropWhile_id append_Nil)
    from assms True d obtain r where "?u = CHR ''.'' # r" "takeWhile isDigit r \<noteq> []"
      by (auto simp: validFloatingPoint_def Let_def split: list.splits if_splits)
    then show ?thesis
      by (simp add: unsignedLiteral_fraction)
  qed
qed

text \<open>A valid floating-point number always parses to a number.\<close>

lemma validFloatingPoint_not_NaN: "validFloatingPoint str \<Longrightarrow> \<not> isNaN (parseFloat str)"
proof (cases str)
  case Nil
  assume "validFloatingPoint str"
  with Nil show ?thesis
    by (simp add: validFloatingPoint_def)
next
  case (Cons c r)
  assume v: "validFloatingPoint str"
  show ?thesis
  proof (cases "c = CHR ''-''")
    case True
    with Cons unsignedLiteral_valid [OF v] show ?thesis
      by (simp add: parseFloat_def)
  next
    case False
    have n: "\<not> isNaN (unsignedLiteral str)"
      using unsignedLiteral_valid [OF v] Cons False by simp
    have "isDigit c \<or> c = CHR ''.''"
      using v Cons False
      by (cases "isDigit c") (auto simp: validFloatingPoint_def Let_def split: list.splits if_splits)
    then have "\<not> isWhiteSpace c" "c \<noteq> CHR ''+''"
      by auto
    with Cons False n show ?thesis
      by (simp add: parseFloat_def)
  qed
qed

lemma numberField_empty: "numberField [] = []"
  by (simp add: numberField_def)

lemma numberField_value:
  "numberField v = v \<Longrightarrow> v \<noteq> [] \<Longrightarrow> validFloatingPoint v \<and> isFinite (parseFloat v)"
  by (simp add: numberField_def split: if_splits)

text \<open>
  The field does not hand over a text that is no number, the word \<open>Infinity\<close>, or a
  literal that overflows.
\<close>

lemma numberField_refuses:
  "numberField ''abc'' = [] \<and> numberField ''Infinity'' = [] \<and> numberField ''1e400'' = []"
  by code_simp

lemma navigate_keeps_input: "currentTemp (navigate k s) = currentTemp s"
  by (cases k) simp_all

lemma step_keeps_field:
  assumes "receivable e" and "numberField (currentTemp s) = currentTemp s"
  shows "numberField (currentTemp (step e s)) = currentTemp (step e s)"
  using assms
  by (cases e)
     (auto simp: numberField_empty navigate_keeps_input tick_def click_startRoast_def
        startRoast_def click_toggleTimer_def stopRoast_def click_markFirstCrack_def
        markFirstCrack_def click_resetRoast_def resetRoast_def click_addTemperatureReading_def
        addTemperatureReading_def click_finishRoast_def finishRoast_def
        click_proceedToSummary_def proceedToSummary_def click_saveRoast_def saveRoast_def)

lemma run_keeps_field:
  "list_all receivable es \<Longrightarrow> numberField (currentTemp s) = currentTemp s \<Longrightarrow>
   numberField (currentTemp (run es s)) = currentTemp (run es s)"
  by (induction es arbitrary: s) (simp_all add: step_keeps_field)

text \<open>
  After receivable events the pending temperature is a value of its field: empty, or a
  valid number with a finite value.
\<close>

lemma session_after_field:
  "list_all receivable es \<Longrightarrow>
   numberField (currentTemp (session_after es)) = currentTemp (session_after es)"
  by (simp add: session_after_def run_keeps_field initial_def numberField_empty)

text \<open>
  C6. Logging appends the reading of the current timer value and the parsed pending input,
  and empties the pending input, when the session is in \<open>roasting\<close> and the input parses
  to a finite number. For a pending input that its number field can hold it does so only
  then: in every other case nothing changes. Every input that does not parse to a number,
  whatever the string, is rejected and leaves the session as it is.
\<close>

theorem click_addTemperatureReading_effect:
  "(appState s = Roasting \<and> isFinite (parseFloat (currentTemp s)) \<longrightarrow>
      click_addTemperatureReading s =
        s\<lparr> temperatureReadings :=
             temperatureReadings s
               @ [\<lparr> time = roastTimer s, temperature = parseFloat (currentTemp s) \<rparr>],
           currentTemp := [] \<rparr>) \<and>
   (numberField (currentTemp s) = currentTemp s \<and>
    \<not> (appState s = Roasting \<and> isFinite (parseFloat (currentTemp s))) \<longrightarrow>
      click_addTemperatureReading s = s) \<and>
   (isNaN (parseFloat (currentTemp s)) \<longrightarrow>
      click_addTemperatureReading s = s \<and> addTemperatureReading s = s)"
proof -
  have a: "isFinite (parseFloat (currentTemp s)) \<Longrightarrow>
           currentTemp s \<noteq> [] \<and> \<not> isNaN (parseFloat (currentTemp s))"
    using parseFloat_empty by (auto dest: isFinite_not_NaN)
  have b: "numberField (currentTemp s) = currentTemp s \<Longrightarrow> currentTemp s \<noteq> [] \<Longrightarrow>
           isFinite (parseFloat (currentTemp s))"
    by (simp add: numberField_value)
  show ?thesis
    using a b by (auto simp: click_addTemperatureReading_def addTemperatureReading_def)
qed

text \<open>
  One second into the roast the input \<open>205.5\<close> is appended at time 1; with an empty
  pending input nothing is logged; the string \<open>abc\<close> is rejected and leaves the session as
  it is.
\<close>

theorem click_addTemperatureReading_effect_witness:
  "list_all receivable (begin_roast @ [Tick, SetCurrentTemp ''205.5'']) \<and>
   numberField (currentTemp (session_after (begin_roast @ [Tick, SetCurrentTemp ''205.5''])))
     = currentTemp (session_after (begin_roast @ [Tick, SetCurrentTemp ''205.5''])) \<and>
   appState (session_after (begin_roast @ [Tick, SetCurrentTemp ''205.5''])) = Roasting \<and>
   isFinite (parseFloat (currentTemp (session_after (begin_roast @ [Tick, SetCurrentTemp ''205.5''])))) \<and>
   temperatureReadings (click_addTemperatureReading
       (session_after (begin_roast @ [Tick, SetCurrentTemp ''205.5''])))
     = [\<lparr> time = 0, temperature = Fin 200 \<rparr>, \<lparr> time = 1, temperature = Fin (411 / 2) \<rparr>] \<and>
   numberField (currentTemp (session_after begin_roast)) = currentTemp (session_after begin_roast) \<and>
   \<not> isFinite (parseFloat (currentTemp (session_after begin_roast))) \<and>
   click_addTemperatureReading (session_after begin_roast) = session_after begin_roast \<and>
   isNaN (parseFloat (currentTemp (session_after (begin_roast @ [SetCurrentTemp ''abc''])))) \<and>
   click_addTemperatureReading (session_after (begin_roast @ [SetCurrentTemp ''abc'']))
     = session_after (begin_roast @ [SetCurrentTemp ''abc'']) \<and>
   addTemperatureReading (session_after (begin_roast @ [SetCurrentTemp ''abc'']))
     = session_after (begin_roast @ [SetCurrentTemp ''abc''])"
proof -
  let ?t = "session_after (begin_roast @ [Tick, SetCurrentTemp ''205.5''])"
  let ?e = "session_after begin_roast"
  let ?s = "session_after (begin_roast @ [SetCurrentTemp ''abc''])"
  have r: "list_all receivable (begin_roast @ [Tick, SetCurrentTemp ''205.5''])"
    by code_simp
  have k: "numberField (currentTemp ?t) = currentTemp ?t \<and> appState ?t = Roasting \<and>
           isFinite (parseFloat (currentTemp ?t))"
    by code_simp
  have v: "temperatureReadings ?t = [\<lparr> time = 0, temperature = Fin 200 \<rparr>] \<and> roastTimer ?t = 1 \<and>
           parseFloat (currentTemp ?t) = Fin (411 / 2)"
    by code_simp
  have n: "numberField (currentTemp ?e) = currentTemp ?e \<and> \<not> isFinite (parseFloat (currentTemp ?e))"
    by code_simp
  have h: "isNaN (parseFloat (currentTemp ?s))"
    by code_simp
  have "temperatureReadings (click_addTemperatureReading ?t)
          = [\<lparr> time = 0, temperature = Fin 200 \<rparr>, \<lparr> time = 1, temperature = Fin (411 / 2) \<rparr>]"
    using click_addTemperatureReading_effect [of ?t] k v by simp
  moreover have "click_addTemperatureReading ?e = ?e"
    using click_addTemperatureReading_effect [of ?e] n by blast
  moreover have "click_addTemperatureReading ?s = ?s \<and> addTemperatureReading ?s = ?s"
    using click_addTemperatureReading_effect [of ?s] h by blast
  ultimately show ?thesis
    using r k n h by blast
qed

text \<open>
  C10. A call that appends a reading (pending input non-empty and numeric) empties the
  pending input, so a second call right after it changes nothing: the log grows by exactly
  one reading per entered value.
\<close>

theorem addTemperatureReading_clears_input:
  assumes "currentTemp s \<noteq> []" and "\<not> isNaN (parseFloat (currentTemp s))"
  shows "currentTemp (addTemperatureReading s) = [] \<and>
         length (temperatureReadings (addTemperatureReading s))
           = length (temperatureReadings s) + 1 \<and>
         addTemperatureReading (addTemperatureReading s) = addTemperatureReading s \<and>
         (appState s = Roasting \<longrightarrow>
            click_addTemperatureReading s = addTemperatureReading s \<and>
            click_addTemperatureReading (click_addTemperatureReading s)
              = click_addTemperatureReading s)"
  using assms by (simp add: click_addTemperatureReading_def addTemperatureReading_def)

theorem addTemperatureReading_clears_input_witness:
  "currentTemp (session_after (begin_roast @ [SetCurrentTemp ''205''])) \<noteq> [] \<and>
   \<not> isNaN (parseFloat (currentTemp (session_after (begin_roast @ [SetCurrentTemp ''205''])))) \<and>
   currentTemp (addTemperatureReading (session_after (begin_roast @ [SetCurrentTemp ''205''])))
     = [] \<and>
   length (temperatureReadings
       (addTemperatureReading (session_after (begin_roast @ [SetCurrentTemp ''205''])))) = 2 \<and>
   length (temperatureReadings (addTemperatureReading
       (addTemperatureReading (session_after (begin_roast @ [SetCurrentTemp ''205'']))))) = 2"
proof -
  let ?s = "session_after (begin_roast @ [SetCurrentTemp ''205''])"
  have h1: "currentTemp ?s \<noteq> []"
    by code_simp
  have h2: "\<not> isNaN (parseFloat (currentTemp ?s))"
    by code_simp
  have l: "length (temperatureReadings ?s) = 1"
    by code_simp
  show ?thesis
    using addTemperatureReading_clears_input [OF h1 h2] h1 h2 l by simp
qed

section \<open>Rate of rise\<close>

lemma getRateOfRise_short: "length (temperatureReadings s) < 2 \<Longrightarrow> getRateOfRise s = Fin 0"
  by (simp add: getRateOfRise_def)

text \<open>
  When the last two readings have the same time the division is by zero: the result is
  \<open>Infinity\<close>, \<open>-Infinity\<close> or \<open>NaN\<close> as the temperature rose, fell or stayed.
\<close>

lemma getRateOfRise_same_time:
  assumes "temperatureReadings s = ys @ [a, b]" and "time a = time b"
    and "temperature a = Fin x" and "temperature b = Fin y"
  shows "getRateOfRise s = (if y = x then NaN else if x < y then PosInf else NegInf)"
  using assms by (auto simp: getRateOfRise_def slice_last2_def js_sub_def num_def inf_times_def)

text \<open>
  C7. The rate of rise is meant to be a finite integer for every log, and 0 when the last
  two readings share a time. The code returns 0 for a log of fewer than two readings but
  does not guard the division: the operator begins the roast at 200 degrees and logs 205
  degrees within the first second, the log holds two readings at time 0, and the rate of
  rise is \<open>Infinity\<close>.
\<close>

theorem getRateOfRise_same_second:
  "map time (temperatureReadings
       (session_after (begin_roast @ [SetCurrentTemp ''205'', ClickLogTemp]))) = [0, 0] \<and>
   getRateOfRise (session_after (begin_roast @ [SetCurrentTemp ''205'', ClickLogTemp])) = PosInf \<and>
   \<not> isFinite (getRateOfRise (session_after (begin_roast @ [SetCurrentTemp ''205'', ClickLogTemp])))"
  by code_simp

section \<open>Predictions\<close>

lemma or_zero_not_NaN: "\<not> isNaN (or_zero x)"
  by (simp add: or_zero_def)

lemma adjustment_not_NaN: "\<not> isNaN c \<Longrightarrow> \<not> isNaN (js_mul (js_sub c (Fin a)) (Fin (1 / 2)))"
  by (cases c) (simp_all add: js_sub_def inf_times_def)

lemma js_add_Fin_not_NaN: "\<not> isNaN y \<Longrightarrow> \<not> isNaN (js_add (Fin a) y)"
  by (cases y) simp_all

lemma Math_max_floor: "\<not> isNaN x \<Longrightarrow> js_ge (Math_max x (Fin c)) (Fin c)"
  by (cases x) (simp_all add: Math_max_def)

text \<open>
  C8. For every content of the form, the predictions are those of the formula of the
  specification at the parsed green weight and charge temperature (an empty or unparsable
  field counts as 0) and the selected profile: 15, 18 and 22 percent for light, medium and
  dark. Whatever the inputs, the total time is at least 600 s and the first crack at least
  480 s.
\<close>

theorem getPredictions_refines_predict:
  "(roastType s = profile_name p \<longrightarrow>
      getPredictions s =
        predict_spec (or_zero (parseFloat (greenWeight s))) (or_zero (parseFloat (chargeTemp s))) p) \<and>
   js_ge (totalTime (getPredictions s)) (Fin 600) \<and>
   js_ge (firstCrack (getPredictions s)) (Fin 480)"
proof -
  let ?c = "or_zero (parseFloat (chargeTemp s))"
  have adj: "\<not> isNaN (js_mul (js_sub ?c (Fin 200)) (Fin (1 / 2)))"
    by (rule adjustment_not_NaN) (rule or_zero_not_NaN)
  have "roastType s = profile_name p \<longrightarrow>
      getPredictions s = predict_spec (or_zero (parseFloat (greenWeight s))) ?c p"
    by (cases p) (simp_all add: getPredictions_def predict_spec_def Let_def)
  moreover have "js_ge (totalTime (getPredictions s)) (Fin 600)"
    using adj by (simp add: getPredictions_def Let_def Math_max_floor js_add_Fin_not_NaN)
  moreover have "js_ge (firstCrack (getPredictions s)) (Fin 480)"
    using adj by (simp add: getPredictions_def Let_def Math_max_floor js_add_Fin_not_NaN)
  ultimately show ?thesis
    by simp
qed

text \<open>
  400 g charged at 200 degrees, medium profile: first crack at 528 s, 660 s in total, 18
  percent development. 400 g charged at 20 degrees, dark profile: both floors apply.
\<close>

theorem getPredictions_refines_predict_witness:
  "roastType (session_after [SetGreenWeight ''400'', SetChargeTemp ''200'']) = profile_name Medium \<and>
   getPredictions (session_after [SetGreenWeight ''400'', SetChargeTemp ''200''])
     = \<lparr> firstCrack = Fin 528, totalTime = Fin 660, development = 18 \<rparr> \<and>
   roastType (session_after [SetGreenWeight ''400'', SetChargeTemp ''20'', SetRoastType ''Dark''])
     = profile_name Dark \<and>
   getPredictions (session_after [SetGreenWeight ''400'', SetChargeTemp ''20'', SetRoastType ''Dark''])
     = \<lparr> firstCrack = Fin 480, totalTime = Fin 600, development = 22 \<rparr>"
proof -
  let ?s = "session_after [SetGreenWeight ''400'', SetChargeTemp ''200'']"
  let ?t = "session_after [SetGreenWeight ''400'', SetChargeTemp ''20'', SetRoastType ''Dark'']"
  have h: "roastType ?s = profile_name Medium"
    by code_simp
  have v: "predict_spec (or_zero (parseFloat (greenWeight ?s)))
             (or_zero (parseFloat (chargeTemp ?s))) Medium
           = \<lparr> firstCrack = Fin 528, totalTime = Fin 660, development = 18 \<rparr>"
    by code_simp
  have k: "roastType ?t = profile_name Dark"
    by code_simp
  have w: "predict_spec (or_zero (parseFloat (greenWeight ?t)))
             (or_zero (parseFloat (chargeTemp ?t))) Dark
           = \<lparr> firstCrack = Fin 480, totalTime = Fin 600, development = 22 \<rparr>"
    by code_simp
  show ?thesis
    using getPredictions_refines_predict [of ?s Medium] getPredictions_refines_predict [of ?t Dark]
      h v k w
    by simp
qed

section \<open>The invariants hold in every reachable session\<close>

lemma inv_initial: "session_inv initial"
  by (simp add: session_inv_def initial_def)

lemma inv_tick: "session_inv s \<Longrightarrow> session_inv (tick s)"
  by (cases "firstCrackTime s") (auto simp: session_inv_def tick_def list_all_iff)

lemma inv_startRoast: "session_inv s \<Longrightarrow> session_inv (startRoast s)"
  by (auto simp: session_inv_def startRoast_def)

lemma inv_stopRoast: "session_inv s \<Longrightarrow> session_inv (stopRoast s)"
  by (simp add: session_inv_def stopRoast_def)

lemma inv_resetRoast: "session_inv (resetRoast s)"
  by (simp add: session_inv_def resetRoast_def)

lemma inv_markFirstCrack: "session_inv s \<Longrightarrow> session_inv (markFirstCrack s)"
  by (simp add: session_inv_def markFirstCrack_def)

lemma inv_addTemperatureReading: "session_inv s \<Longrightarrow> session_inv (addTemperatureReading s)"
  by (auto simp: session_inv_def addTemperatureReading_def sorted_append list_all_iff)

lemma inv_finishRoast: "session_inv s \<Longrightarrow> session_inv (finishRoast s)"
  by (simp add: session_inv_def finishRoast_def)

text \<open>The invariant does not read the stage, the running flag or the form.\<close>

lemma inv_field:
  "session_inv (s\<lparr>appState := a\<rparr>) = session_inv s"
  "session_inv (s\<lparr>isTimerRunning := b\<rparr>) = session_inv s"
  "session_inv (s\<lparr>currentTemp := v\<rparr>) = session_inv s"
  "session_inv (s\<lparr>greenWeight := v\<rparr>) = session_inv s"
  "session_inv (s\<lparr>ambientTemp := v\<rparr>) = session_inv s"
  "session_inv (s\<lparr>chargeTemp := v\<rparr>) = session_inv s"
  "session_inv (s\<lparr>roastType := v\<rparr>) = session_inv s"
  "session_inv (s\<lparr>beanOrigin := v\<rparr>) = session_inv s"
  "session_inv (s\<lparr>roastedWeight := v\<rparr>) = session_inv s"
  "session_inv (s\<lparr>roastNotes := v\<rparr>) = session_inv s"
  by (simp_all add: session_inv_def)

lemma inv_navigate: "session_inv s \<Longrightarrow> session_inv (navigate k s)"
  by (cases k) (simp_all add: inv_field)

lemma inv_step: "session_inv s \<Longrightarrow> session_inv (step e s)"
  by (cases e)
     (simp_all add: inv_field inv_tick inv_navigate inv_startRoast inv_stopRoast inv_resetRoast
        inv_markFirstCrack inv_addTemperatureReading inv_finishRoast
        click_startRoast_def click_toggleTimer_def click_markFirstCrack_def click_resetRoast_def
        click_addTemperatureReading_def click_finishRoast_def click_proceedToSummary_def
        click_saveRoast_def saveRoast_def proceedToSummary_def)

lemma inv_run: "session_inv s \<Longrightarrow> session_inv (run es s)"
  by (induction es arbitrary: s) (simp_all add: inv_step)

lemma navigate_keeps_log:
  "temperatureReadings (navigate k s) = temperatureReadings s"
  "firstCrackTime (navigate k s) = firstCrackTime s"
  by (cases k; simp)+

text \<open>A reading that an event adds to the log is not later than the timer at that moment.\<close>

lemma new_reading_step:
  "list_all (\<lambda>r. r \<in> set (temperatureReadings s) \<or> time r \<le> roastTimer s)
     (temperatureReadings (step e s))"
  by (cases e)
     (auto simp: navigate_keeps_log list_all_iff tick_def click_startRoast_def startRoast_def
        click_toggleTimer_def stopRoast_def click_markFirstCrack_def markFirstCrack_def
        click_resetRoast_def resetRoast_def click_addTemperatureReading_def
        addTemperatureReading_def click_finishRoast_def finishRoast_def
        click_proceedToSummary_def proceedToSummary_def click_saveRoast_def saveRoast_def)

text \<open>A first crack that an event sets is the timer value at that moment.\<close>

lemma new_mark_step:
  "firstCrackTime (step e s) = firstCrackTime s \<or> firstCrackTime (step e s) = None \<or>
   firstCrackTime (step e s) = Some (roastTimer s)"
  by (cases e)
     (auto simp: navigate_keeps_log tick_def click_startRoast_def startRoast_def
        click_toggleTimer_def stopRoast_def click_markFirstCrack_def markFirstCrack_def
        click_resetRoast_def resetRoast_def click_addTemperatureReading_def
        addTemperatureReading_def click_finishRoast_def finishRoast_def
        click_proceedToSummary_def proceedToSummary_def click_saveRoast_def saveRoast_def)

text \<open>
  C9. In every session reachable from the initial state the times of the log never
  decrease along the log, no reading is later than the timer and a marked first crack is
  not later than the timer. Every event preserves this, and so does each handler on its
  own: start, tick, pause, resume, mark, log, finish and reset. A reading is added with a
  time that does not exceed the timer at that moment, and a first crack is set to the
  timer value of that moment.
\<close>

theorem session_inv_reachable:
  "session_inv (session_after es) \<and>
   (session_inv s \<longrightarrow>
      session_inv (step e s) \<and> session_inv (startRoast s) \<and> session_inv (tick s) \<and>
      session_inv (stopRoast s) \<and> session_inv (s\<lparr> isTimerRunning := True \<rparr>) \<and>
      session_inv (markFirstCrack s) \<and> session_inv (addTemperatureReading s) \<and>
      session_inv (finishRoast s) \<and> session_inv (resetRoast s)) \<and>
   list_all (\<lambda>r. r \<in> set (temperatureReadings s) \<or> time r \<le> roastTimer s)
     (temperatureReadings (step e s)) \<and>
   (firstCrackTime (step e s) = firstCrackTime s \<or> firstCrackTime (step e s) = None \<or>
    firstCrackTime (step e s) = Some (roastTimer s))"
  using inv_run [OF inv_initial, of es] new_reading_step [of s e] new_mark_step [of e s]
  by (simp add: session_after_def inv_step inv_startRoast inv_tick inv_stopRoast inv_field
        inv_markFirstCrack inv_addTemperatureReading inv_finishRoast inv_resetRoast)

text \<open>
  A roast with a reading at second 1, first crack at second 1 and two seconds elapsed
  satisfies the invariants, and so does the session one tick later.
\<close>

theorem session_inv_reachable_witness:
  "map time (temperatureReadings (session_after
       (begin_roast @ [Tick, SetCurrentTemp ''205'', ClickLogTemp, ClickFirstCrack, Tick])))
     = [0, 1] \<and>
   firstCrackTime (session_after
       (begin_roast @ [Tick, SetCurrentTemp ''205'', ClickLogTemp, ClickFirstCrack, Tick]))
     = Some 1 \<and>
   roastTimer (session_after
       (begin_roast @ [Tick, SetCurrentTemp ''205'', ClickLogTemp, ClickFirstCrack, Tick]))
     = 2 \<and>
   session_inv (session_after
       (begin_roast @ [Tick, SetCurrentTemp ''205'', ClickLogTemp, ClickFirstCrack, Tick])) \<and>
   session_inv (step Tick (session_after
       (begin_roast @ [Tick, SetCurrentTemp ''205'', ClickLogTemp, ClickFirstCrack, Tick])))"
proof -
  let ?es = "begin_roast @ [Tick, SetCurrentTemp ''205'', ClickLogTemp, ClickFirstCrack, Tick]"
  have v: "map time (temperatureReadings (session_after ?es)) = [0, 1] \<and>
           firstCrackTime (session_after ?es) = Some 1 \<and> roastTimer (session_after ?es) = 2"
    by code_simp
  have i: "session_inv (session_after ?es)"
    using session_inv_reachable [of ?es] by blast
  have "session_inv (step Tick (session_after ?es))"
    using session_inv_reachable [of "[]" "session_after ?es" Tick] i by blast
  with v i show ?thesis
    by blast
qed

end
